theory Spec2Isabelle
  imports Complex_Main
begin

section \<open>Data model of tournament/models.py\<close>

text \<open>
  The module is Python 2 on the Django ORM. Database tables are lists of rows in storage
  order; a foreign key is the primary key it holds. Python integers are \<open>int\<close>.
  Scores and ranking points are Python floats in the source (\<open>100.0\<close>,
  \<open>38.0\<close>, ...); they are modelled as exact rationals, so \<open>/\<close> is true
  division and rounding is not modelled. Every exception the modelled code can raise is a
  value of \<open>error\<close>.
\<close>

datatype error =
    ValidationError string
  | InvalidScoringSystem string
  | IndexError
  | KeyError
  | AttributeError
  | ZeroDivisionError
  | DoesNotExist
  | MultipleObjectsReturned
  | IntegrityError
  | RuntimeError
  | ValueError

definition FIRST_YEAR :: int where
  "FIRST_YEAR = 1901"

definition TOTAL_SCS :: int where
  "TOTAL_SCS = 34"

definition WINNING_SCS :: int where
  "WINNING_SCS = (TOTAL_SCS div 2) + 1"

record greatpower =
  gp_pk :: nat
  gp_name :: string
  starting_centres :: int

record centrecount =
  cc_power :: nat
  cc_game :: nat
  cc_year :: int
  cc_count :: int

record tournament =
  t_pk :: nat
  tournament_scoring_system :: string
  round_scoring_system :: string

record round =
  r_pk :: nat
  r_tournament :: nat
  scoring_system :: string
  dias :: bool
  round_final_year :: "int option"

record game =
  g_pk :: nat
  is_finished :: bool
  the_round :: nat

record drawproposal =
  dp_game :: nat
  dp_passed :: bool
  dp_power_ids :: "nat option list"

record gameplayer =
  gpl_player :: nat
  gpl_game :: nat
  gpl_power :: nat
  gpl_score :: rat

record roundplayer =
  rp_player :: nat
  rp_round :: nat
  rp_score :: rat

record tournamentplayer =
  tp_player :: nat
  tp_tournament :: nat
  tp_score :: rat

record gameimage =
  gi_game :: nat
  gi_year :: int
  gi_season :: string
  gi_phase :: string
  gi_image :: string

text \<open>
  The instances held by the module-level list \<open>G_SCORING_SYSTEMS\<close>. None of
  them is abstract. A \<open>GScoringCDiplo\<close> instance carries its name,
  \<open>soloer_pts\<close>, \<open>played_pts\<close>, the list object
  \<open>position_pts\<close> and \<open>loss_pts\<close>.
\<close>

datatype game_scoring_system =
    GScoringSolos
  | GScoringDrawSize
  | GScoringCDiplo string rat rat "rat list" rat
  | GScoringSumOfSquares

fun gs_name :: "game_scoring_system \<Rightarrow> string" where
  "gs_name GScoringSolos = ''Solo or bust''"
| "gs_name GScoringDrawSize = ''Draw size''"
| "gs_name (GScoringCDiplo name soloer_pts played_pts position_pts loss_pts) = name"
| "gs_name GScoringSumOfSquares = ''Sum of Squares''"

definition G_SCORING_SYSTEMS_initial :: "game_scoring_system list" where
  "G_SCORING_SYSTEMS_initial =
     [GScoringSolos,
      GScoringDrawSize,
      GScoringCDiplo ''CDiplo 100'' 100 1 [38, 14, 7] 0,
      GScoringCDiplo ''CDiplo 80'' 80 0 [25, 14, 7] 0,
      GScoringSumOfSquares]"

text \<open>\<open>R_SCORING_SYSTEMS\<close> and \<open>T_SCORING_SYSTEMS\<close> hold immutable instances.\<close>

datatype round_scoring_system = RScoringBest

definition R_SCORING_SYSTEMS :: "(string \<times> round_scoring_system) list" where
  "R_SCORING_SYSTEMS = [(''Best game counts'', RScoringBest)]"

datatype tournament_scoring_system = TScoringSum nat

definition T_SCORING_SYSTEMS :: "(string \<times> tournament_scoring_system) list" where
  "T_SCORING_SYSTEMS =
     [(''Sum best 2 rounds'', TScoringSum 2),
      (''Sum best 3 rounds'', TScoringSum 3),
      (''Sum best 4 rounds'', TScoringSum 4)]"

text \<open>
  Each block of \<open>Game.save\<close> that stores scores issues one database write
  (\<open>p.save()\<close>) per player row, whether or not the value changes. The log
  \<open>score_writes\<close> keeps one entry per executed block; it is the only part of
  the state that is not a table or a module-level object of the source.
\<close>

datatype score_write = StoredGameScores nat | StoredRoundScores nat | StoredTournamentScores nat

record state =
  greatpowers :: "greatpower list"
  tournaments :: "tournament list"
  rounds :: "round list"
  games :: "game list"
  centrecounts :: "centrecount list"
  drawproposals :: "drawproposal list"
  gameplayers :: "gameplayer list"
  roundplayers :: "roundplayer list"
  tournamentplayers :: "tournamentplayer list"
  gameimages :: "gameimage list"
  G_SCORING_SYSTEMS :: "game_scoring_system list"
  score_writes :: "score_write list"

section \<open>Query sets\<close>

text \<open>
  \<open>QuerySet.get()\<close> on the rows that pass a filter; \<open>order_by('-f')\<close> as a
  stable descending sort (the database leaves the order of equal keys open; the model keeps
  storage order among them).
\<close>

definition qs_get :: "('a \<Rightarrow> bool) \<Rightarrow> 'a list \<Rightarrow> error + 'a" where
  "qs_get P rows =
     (case filter P rows of
        [] \<Rightarrow> Inl DoesNotExist
      | [x] \<Rightarrow> Inr x
      | _ \<Rightarrow> Inl MultipleObjectsReturned)"

definition order_by_desc :: "('a \<Rightarrow> int) \<Rightarrow> 'a list \<Rightarrow> 'a list" where
  "order_by_desc f rows = sort_key (\<lambda>x. - f x) rows"

text \<open>
  A dictionary filled by a loop \<open>for x in xs: retval[k(x)] = v(x)\<close>, starting from
  the empty dictionary; a later entry for the same key overwrites an earlier one.
\<close>

definition dict_from :: "('a \<Rightarrow> 'k) \<Rightarrow> ('a \<Rightarrow> 'v) \<Rightarrow> 'a list \<Rightarrow> ('k \<rightharpoonup> 'v)" where
  "dict_from k v xs = fold (\<lambda>x retval. retval(k x \<mapsto> v x)) xs Map.empty"

definition centrecount_set :: "state \<Rightarrow> nat \<Rightarrow> centrecount list" where
  "centrecount_set s gid = filter (\<lambda>c. cc_game c = gid) (centrecounts s)"

definition gameplayer_set :: "state \<Rightarrow> nat \<Rightarrow> gameplayer list" where
  "gameplayer_set s gid = filter (\<lambda>p. gpl_game p = gid) (gameplayers s)"

section \<open>Tie-break allocation: adjust_rank_score\<close>

text \<open>
  The \<open>while\<close> loop of \<open>adjust_rank_score\<close>, on its variables
  \<open>i\<close>, \<open>count\<close> and \<open>points\<close>: it walks the centre counts while
  they equal \<open>scs\<close> and adds up the ranking points of the positions walked.
\<close>

function top_tie :: "centrecount list \<Rightarrow> rat list \<Rightarrow> int \<Rightarrow> nat \<Rightarrow> nat \<Rightarrow> rat \<Rightarrow> nat \<times> nat \<times> rat" where
  "top_tie centre_counts rank_points scs i count points =
     (if i < length centre_counts \<and> cc_count (centre_counts ! i) = scs
      then top_tie centre_counts rank_points scs (i + 1) (count + 1)
             (if i < length rank_points then points + rank_points ! i else points)
      else (i, count, points))"
  by pat_completeness auto
termination
  by (relation "measure (\<lambda>(cs, rp, scs, i, c, p). length cs - i)") auto

declare top_tie.simps [simp del]

text \<open>
  The \<open>for j in range(0, i)\<close> loop: position \<open>j\<close> of the caller's list is
  overwritten in place, or the list is extended when it is too short.
\<close>

definition share_points :: "nat \<Rightarrow> rat \<Rightarrow> rat list \<Rightarrow> rat list" where
  "share_points i v rank_points =
     fold (\<lambda>j rp. if j < length rp then rp[j := v] else rp @ [v]) [0..<i] rank_points"

text \<open>
  \<open>adjust_rank_score\<close> returns its result together with the final contents of the
  list object passed as \<open>rank_points\<close>, which the body assigns to and appends to.
  The recursive call receives the slice \<open>rank_points[i:]\<close>, a fresh list, so what
  it does to its argument is not seen by the caller.
\<close>

function adjust_rank_score :: "centrecount list \<Rightarrow> rat list \<Rightarrow> error + (rat list \<times> rat list)" where
  "adjust_rank_score centre_counts rank_points =
     (if length rank_points = 0
      then Inr (replicate (length centre_counts) 0, rank_points)
      else if centre_counts = [] then Inl IndexError
      else
        let r = top_tie centre_counts rank_points (cc_count (centre_counts ! 0)) 0 0 0;
            i = fst r;
            count = fst (snd r);
            points = snd (snd r);
            rank_points' = share_points i (points / of_nat count) rank_points
        in if i = 0 then Inl RuntimeError
           else case adjust_rank_score (drop i centre_counts) (drop i rank_points') of
                  Inl e \<Rightarrow> Inl e
                | Inr rest \<Rightarrow> Inr (take i rank_points' @ fst rest, rank_points'))"
  by pat_completeness auto
termination
  by (relation "measure (\<lambda>(cs, rp). length cs)") auto

declare adjust_rank_score.simps [simp del]

text \<open>The number of powers tied at the top: the value of \<open>i\<close> after the while loop.\<close>

definition tie_len :: "centrecount list \<Rightarrow> nat" where
  "tie_len C = length (takeWhile (\<lambda>c. cc_count c = cc_count (C ! 0)) C)"

section \<open>Game scoring systems\<close>

subsection \<open>Helpers of the base class GameScoringSystem\<close>

text \<open>
  \<open>_the_game\<close>: \<open>centre_counts.first()\<close> is \<open>None\<close> on an empty query
  set, and \<open>None.game\<close> raises AttributeError.
\<close>

definition gss_the_game :: "centrecount list \<Rightarrow> error + nat" where
  "gss_the_game centre_counts =
     (case centre_counts of [] \<Rightarrow> Inl AttributeError | c # _ \<Rightarrow> Inr (cc_game c))"

definition gss_final_year :: "centrecount list \<Rightarrow> error + int" where
  "gss_final_year centre_counts =
     (case order_by_desc cc_year centre_counts of
        [] \<Rightarrow> Inl IndexError
      | c # _ \<Rightarrow> Inr (cc_year c))"

definition gss_final_year_scs :: "centrecount list \<Rightarrow> error + centrecount list" where
  "gss_final_year_scs centre_counts =
     (case gss_final_year centre_counts of
        Inl e \<Rightarrow> Inl e
      | Inr y \<Rightarrow> Inr (order_by_desc cc_count (filter (\<lambda>c. cc_year c = y) centre_counts)))"

definition gss_survivor_count :: "centrecount list \<Rightarrow> error + nat" where
  "gss_survivor_count centre_counts =
     (case gss_final_year_scs centre_counts of
        Inl e \<Rightarrow> Inl e
      | Inr scs \<Rightarrow> Inr (length (filter (\<lambda>c. cc_count c > 0) scs)))"

subsection \<open>Methods of Game and DrawProposal that the scorers call\<close>

text \<open>
  \<open>DrawProposal.powers\<close> collects the non-null \<open>power_n\<close> fields that are
  truthy; \<open>dp_power_ids\<close> lists the seven fields. The dictionary iteration order of
  the source is open; only membership and length of the result are used.
\<close>

definition powers :: "drawproposal \<Rightarrow> nat list" where
  "powers d =
     concat (map (\<lambda>v. case v of None \<Rightarrow> [] | Some p \<Rightarrow> if p = 0 then [] else [p])
                 (dp_power_ids d))"

definition draw_size :: "drawproposal \<Rightarrow> nat" where
  "draw_size d = length (powers d)"

definition passed_draw :: "state \<Rightarrow> nat \<Rightarrow> error + drawproposal option" where
  "passed_draw s gid =
     (case qs_get (\<lambda>d. dp_game d = gid \<and> dp_passed d) (drawproposals s) of
        Inl DoesNotExist \<Rightarrow> Inr None
      | Inl e \<Rightarrow> Inl e
      | Inr d \<Rightarrow> Inr (Some d))"

definition soloer :: "state \<Rightarrow> nat \<Rightarrow> error + gameplayer option" where
  "soloer s gid =
     (case order_by_desc cc_count (centrecount_set s gid) of
        [] \<Rightarrow> Inl IndexError
      | c # _ \<Rightarrow>
          if cc_count c \<ge> WINNING_SCS
          then (case qs_get (\<lambda>p. gpl_power p = cc_power c) (gameplayer_set s gid) of
                  Inl e \<Rightarrow> Inl e
                | Inr p \<Rightarrow> Inr (Some p))
          else Inr None)"

text \<open>\<open>soloed = the_game.soloer() != None\<close>, as \<open>GScoringDrawSize.scores\<close> computes it.\<close>

definition soloed :: "state \<Rightarrow> nat \<Rightarrow> error + bool" where
  "soloed s gid = (case soloer s gid of Inl e \<Rightarrow> Inl e | Inr p \<Rightarrow> Inr (p \<noteq> None))"

definition is_dias :: "state \<Rightarrow> nat \<Rightarrow> error + bool" where
  "is_dias s gid =
     (case qs_get (\<lambda>g. g_pk g = gid) (games s) of
        Inl e \<Rightarrow> Inl e
      | Inr g \<Rightarrow>
          (case qs_get (\<lambda>r. r_pk r = the_round g) (rounds s) of
             Inl e \<Rightarrow> Inl e
           | Inr r \<Rightarrow> Inr (dias r)))"

subsection \<open>GScoringSolos\<close>

definition GScoringSolos_scores :: "centrecount list \<Rightarrow> error + (nat \<rightharpoonup> rat)" where
  "GScoringSolos_scores centre_counts =
     (case gss_final_year_scs centre_counts of
        Inl e \<Rightarrow> Inl e
      | Inr scs \<Rightarrow>
          Inr (dict_from cc_power (\<lambda>sc. if cc_count sc \<ge> WINNING_SCS then 100 else 0) scs))"

subsection \<open>GScoringDrawSize\<close>

text \<open>The body of the \<open>for sc in ...\<close> loop: the value stored under \<open>sc.power\<close>.\<close>

definition draw_size_score :: "drawproposal option \<Rightarrow> nat \<Rightarrow> bool \<Rightarrow> centrecount \<Rightarrow> rat" where
  "draw_size_score draw survivors soloed_flag sc =
     (if cc_count sc \<ge> WINNING_SCS then 100
      else if soloed_flag then 0
      else if (case draw of None \<Rightarrow> False | Some d \<Rightarrow> cc_power sc \<in> set (powers d))
           then 100 / of_nat (draw_size (the draw))
      else if cc_count sc > 0 then 100 / of_nat survivors
      else 0)"

definition GScoringDrawSize_scores :: "state \<Rightarrow> centrecount list \<Rightarrow> error + (nat \<rightharpoonup> rat)" where
  "GScoringDrawSize_scores s centre_counts =
     (case gss_the_game centre_counts of
        Inl e \<Rightarrow> Inl e
      | Inr the_game \<Rightarrow>
     (case is_dias s the_game of
        Inl e \<Rightarrow> Inl e
      | Inr is_dias_flag \<Rightarrow>
     (case passed_draw s the_game of
        Inl e \<Rightarrow> Inl e
      | Inr draw \<Rightarrow>
     (case gss_survivor_count centre_counts of
        Inl e \<Rightarrow> Inl e
      | Inr survivors \<Rightarrow>
     (case soloed s the_game of
        Inl e \<Rightarrow> Inl e
      | Inr soloed_flag \<Rightarrow>
     (case gss_final_year_scs centre_counts of
        Inl e \<Rightarrow> Inl e
      | Inr scs \<Rightarrow>
          Inr (dict_from cc_power (draw_size_score draw survivors soloed_flag) scs)))))))"

subsection \<open>GScoringCDiplo\<close>

text \<open>
  The loop of \<open>scores\<close> runs over the positions \<open>i\<close> of \<open>final_scs\<close>.
  \<open>scores\<close> hands the instance's own list \<open>self.position_pts\<close> to
  \<open>adjust_rank_score\<close>; the second component of the result is that list after the
  call.
\<close>

definition GScoringCDiplo_scores ::
  "rat \<Rightarrow> rat \<Rightarrow> rat list \<Rightarrow> rat \<Rightarrow> centrecount list \<Rightarrow> error + ((nat \<rightharpoonup> rat) \<times> rat list)" where
  "GScoringCDiplo_scores soloer_pts played_pts position_pts loss_pts centre_counts =
     (case gss_final_year_scs centre_counts of
        Inl e \<Rightarrow> Inl e
      | Inr final_scs \<Rightarrow>
     (case adjust_rank_score final_scs position_pts of
        Inl e \<Rightarrow> Inl e
      | Inr (rank_pts, position_pts') \<Rightarrow>
          if length rank_pts < length final_scs then Inl IndexError
          else
            Inr (dict_from (\<lambda>i. cc_power (final_scs ! i))
                   (\<lambda>i. let sc = final_scs ! i in
                        if cc_count (final_scs ! 0) \<ge> WINNING_SCS
                        then (if cc_count sc \<ge> WINNING_SCS then soloer_pts else loss_pts)
                        else played_pts + of_int (cc_count sc) + rank_pts ! i)
                   [0..<length final_scs],
                 position_pts')))"

subsection \<open>GScoringSumOfSquares\<close>

text \<open>
  The first loop, on \<open>(retval, retval_solo, sum_of_squares, solo_found)\<close>, and the
  second loop, which divides each entry in place.
\<close>

definition sum_of_squares_pass ::
  "centrecount list \<Rightarrow> (nat \<rightharpoonup> rat) \<times> (nat \<rightharpoonup> rat) \<times> int \<times> bool" where
  "sum_of_squares_pass final_scs =
     fold (\<lambda>sc (retval, retval_solo, sum_of_squares, solo_found).
             (retval(cc_power sc \<mapsto> of_int (cc_count sc * cc_count sc) * 100),
              (if cc_count sc \<ge> WINNING_SCS
               then retval_solo(cc_power sc \<mapsto> 100)
               else retval_solo(cc_power sc \<mapsto> 0)),
              sum_of_squares + cc_count sc * cc_count sc,
              solo_found \<or> cc_count sc \<ge> WINNING_SCS))
          final_scs (Map.empty, Map.empty, 0, False)"

fun normalise :: "centrecount list \<Rightarrow> int \<Rightarrow> (nat \<rightharpoonup> rat) \<Rightarrow> error + (nat \<rightharpoonup> rat)" where
  "normalise [] sum_of_squares retval = Inr retval"
| "normalise (sc # scs) sum_of_squares retval =
     (case retval (cc_power sc) of
        None \<Rightarrow> Inl KeyError
      | Some v \<Rightarrow>
          if sum_of_squares = 0 then Inl ZeroDivisionError
          else normalise scs sum_of_squares (retval(cc_power sc \<mapsto> v / of_int sum_of_squares)))"

definition GScoringSumOfSquares_scores :: "centrecount list \<Rightarrow> error + (nat \<rightharpoonup> rat)" where
  "GScoringSumOfSquares_scores centre_counts =
     (case gss_final_year_scs centre_counts of
        Inl e \<Rightarrow> Inl e
      | Inr final_scs \<Rightarrow>
          (case sum_of_squares_pass final_scs of
             (retval, retval_solo, sum_of_squares, solo_found) \<Rightarrow>
               if solo_found then Inr retval_solo
               else normalise final_scs sum_of_squares retval))"

subsection \<open>Dispatch on the instance, and the registry\<close>

fun system_scores ::
  "state \<Rightarrow> game_scoring_system \<Rightarrow> centrecount list \<Rightarrow> error + ((nat \<rightharpoonup> rat) \<times> game_scoring_system)" where
  "system_scores s GScoringSolos ccs =
     (case GScoringSolos_scores ccs of Inl e \<Rightarrow> Inl e | Inr d \<Rightarrow> Inr (d, GScoringSolos))"
| "system_scores s GScoringDrawSize ccs =
     (case GScoringDrawSize_scores s ccs of Inl e \<Rightarrow> Inl e | Inr d \<Rightarrow> Inr (d, GScoringDrawSize))"
| "system_scores s (GScoringCDiplo name soloer_pts played_pts position_pts loss_pts) ccs =
     (case GScoringCDiplo_scores soloer_pts played_pts position_pts loss_pts ccs of
        Inl e \<Rightarrow> Inl e
      | Inr (d, position_pts') \<Rightarrow>
          Inr (d, GScoringCDiplo name soloer_pts played_pts position_pts' loss_pts))"
| "system_scores s GScoringSumOfSquares ccs =
     (case GScoringSumOfSquares_scores ccs of Inl e \<Rightarrow> Inl e | Inr d \<Rightarrow> Inr (d, GScoringSumOfSquares))"

text \<open>
  \<open>find_scoring_system\<close> returns the first instance of the list with the given name
  (no instance of the lists is abstract). The object is identified by its position in the
  list, so that what a call does to it can be written back.
\<close>

fun find_scoring_system :: "string \<Rightarrow> string list \<Rightarrow> nat option" where
  "find_scoring_system name [] = None"
| "find_scoring_system name (n # the_list) =
     (if n = name then Some 0
      else (case find_scoring_system name the_list of None \<Rightarrow> None | Some k \<Rightarrow> Some (Suc k)))"

definition find_game_scoring_system :: "state \<Rightarrow> string \<Rightarrow> nat option" where
  "find_game_scoring_system s name = find_scoring_system name (map gs_name (G_SCORING_SYSTEMS s))"

definition find_round_scoring_system :: "string \<Rightarrow> round_scoring_system option" where
  "find_round_scoring_system name =
     (case find_scoring_system name (map fst R_SCORING_SYSTEMS) of
        None \<Rightarrow> None
      | Some k \<Rightarrow> Some (snd (R_SCORING_SYSTEMS ! k)))"

definition find_tournament_scoring_system :: "string \<Rightarrow> tournament_scoring_system option" where
  "find_tournament_scoring_system name =
     (case find_scoring_system name (map fst T_SCORING_SYSTEMS) of
        None \<Rightarrow> None
      | Some k \<Rightarrow> Some (snd (T_SCORING_SYSTEMS ! k)))"

section \<open>Game, Round and Tournament\<close>

subsection \<open>Game.scores\<close>

definition stored_game_scores :: "state \<Rightarrow> nat \<Rightarrow> (nat \<rightharpoonup> rat)" where
  "stored_game_scores s gid =
     dict_from gpl_power gpl_score (gameplayer_set s gid)"

text \<open>
  \<open>game_scores s g force_recalculation\<close> is \<open>g.scores(force_recalculation)\<close> on
  the Game object \<open>g\<close>; it returns the dictionary and the state, in which the scoring
  instance that was used may have changed.
\<close>

definition game_scores :: "state \<Rightarrow> game \<Rightarrow> bool \<Rightarrow> error + ((nat \<rightharpoonup> rat) \<times> state)" where
  "game_scores s g force_recalculation =
     (if is_finished g \<and> \<not> force_recalculation
      then Inr (stored_game_scores s (g_pk g), s)
      else
        (case qs_get (\<lambda>r. r_pk r = the_round g) (rounds s) of
           Inl e \<Rightarrow> Inl e
         | Inr r \<Rightarrow>
        (case find_game_scoring_system s (scoring_system r) of
           None \<Rightarrow> Inl (InvalidScoringSystem (scoring_system r))
         | Some k \<Rightarrow>
        (case system_scores s (G_SCORING_SYSTEMS s ! k) (centrecount_set s (g_pk g)) of
           Inl e \<Rightarrow> Inl e
         | Inr (d, system') \<Rightarrow>
             Inr (d, s\<lparr>G_SCORING_SYSTEMS := (G_SCORING_SYSTEMS s)[k := system']\<rparr>)))))"

subsection \<open>Game.years_played and Game.final_year\<close>

definition years_played :: "state \<Rightarrow> nat \<Rightarrow> int list" where
  "years_played s gid = sort (remdups (map cc_year (centrecount_set s gid)))"

definition game_final_year :: "state \<Rightarrow> nat \<Rightarrow> error + int" where
  "game_final_year s gid =
     (case years_played s gid of [] \<Rightarrow> Inl IndexError | y # ys \<Rightarrow> Inr (last (y # ys)))"

subsection \<open>Round.is_finished and Tournament.is_finished\<close>

definition round_is_finished :: "state \<Rightarrow> nat \<Rightarrow> bool" where
  "round_is_finished s rid =
     (let gs = filter (\<lambda>g. the_round g = rid) (games s)
      in if length gs = 0 then False else list_all is_finished gs)"

definition tournament_is_finished :: "state \<Rightarrow> nat \<Rightarrow> bool" where
  "tournament_is_finished s tid =
     list_all (\<lambda>r. round_is_finished s (r_pk r)) (filter (\<lambda>r. r_tournament r = tid) (rounds s))"

subsection \<open>RScoringBest and Round.scores\<close>

text \<open>The first loop of \<open>RScoringBest.scores\<close>: \<open>game_scores[g] = g.scores()\<close>.\<close>

fun score_games ::
  "state \<Rightarrow> game list \<Rightarrow> (nat \<rightharpoonup> (nat \<rightharpoonup> rat)) \<Rightarrow> error + ((nat \<rightharpoonup> (nat \<rightharpoonup> rat)) \<times> state)" where
  "score_games s [] acc = Inr (acc, s)"
| "score_games s (g # gs) acc =
     (case game_scores s g False of
        Inl e \<Rightarrow> Inl e
      | Inr (d, s') \<Rightarrow> score_games s' gs (acc(g_pk g \<mapsto> d)))"

text \<open>\<open>game_scores[g.game][g.power] for g in player_games\<close>.\<close>

fun player_game_scores ::
  "(nat \<rightharpoonup> (nat \<rightharpoonup> rat)) \<Rightarrow> gameplayer list \<Rightarrow> error + rat list" where
  "player_game_scores gsc [] = Inr []"
| "player_game_scores gsc (g # gs) =
     (case gsc (gpl_game g) of
        None \<Rightarrow> Inl DoesNotExist
      | Some d \<Rightarrow>
          (case d (gpl_power g) of
             None \<Rightarrow> Inl KeyError
           | Some v \<Rightarrow>
               (case player_game_scores gsc gs of
                  Inl e \<Rightarrow> Inl e
                | Inr vs \<Rightarrow> Inr (v # vs))))"

definition py_max :: "rat list \<Rightarrow> error + rat" where
  "py_max xs = (case xs of [] \<Rightarrow> Inl ValueError | x # ys \<Rightarrow> Inr (fold max ys x))"

text \<open>The second loop, over the players of the given GamePlayers.\<close>

fun best_scores ::
  "(nat \<rightharpoonup> (nat \<rightharpoonup> rat)) \<Rightarrow> gameplayer list \<Rightarrow> nat list \<Rightarrow> (nat \<rightharpoonup> rat) \<Rightarrow> error + (nat \<rightharpoonup> rat)" where
  "best_scores gsc game_players [] retval = Inr retval"
| "best_scores gsc game_players (p # ps) retval =
     (if retval p \<noteq> None then best_scores gsc game_players ps retval
      else
        (case player_game_scores gsc (filter (\<lambda>g. gpl_player g = p) game_players) of
           Inl e \<Rightarrow> Inl e
         | Inr vs \<Rightarrow>
             (case py_max vs of
                Inl e \<Rightarrow> Inl e
              | Inr m \<Rightarrow> best_scores gsc game_players ps (retval(p \<mapsto> m)))))"

definition RScoringBest_scores :: "state \<Rightarrow> gameplayer list \<Rightarrow> error + ((nat \<rightharpoonup> rat) \<times> state)" where
  "RScoringBest_scores s game_players =
     (case score_games s
             (concat (map (\<lambda>g. map (\<lambda>p. g) (filter (\<lambda>p. gpl_game p = g_pk g) game_players)) (games s)))
             Map.empty of
        Inl e \<Rightarrow> Inl e
      | Inr (gsc, s') \<Rightarrow>
          (case best_scores gsc game_players (map gpl_player game_players) Map.empty of
             Inl e \<Rightarrow> Inl e
           | Inr retval \<Rightarrow> Inr (retval, s')))"

definition stored_round_scores :: "state \<Rightarrow> nat \<Rightarrow> (nat \<rightharpoonup> rat)" where
  "stored_round_scores s rid =
     dict_from rp_player rp_score (filter (\<lambda>p. rp_round p = rid) (roundplayers s))"

definition round_scores :: "state \<Rightarrow> round \<Rightarrow> bool \<Rightarrow> error + ((nat \<rightharpoonup> rat) \<times> state)" where
  "round_scores s r force_recalculation =
     (if round_is_finished s (r_pk r) \<and> \<not> force_recalculation
      then Inr (stored_round_scores s (r_pk r), s)
      else
        (case qs_get (\<lambda>t. t_pk t = r_tournament r) (tournaments s) of
           Inl e \<Rightarrow> Inl e
         | Inr t \<Rightarrow>
        (case find_round_scoring_system (round_scoring_system t) of
           None \<Rightarrow> Inl (InvalidScoringSystem (round_scoring_system t))
         | Some RScoringBest \<Rightarrow>
             RScoringBest_scores s
               (filter (\<lambda>p. list_ex (\<lambda>g. g_pk g = gpl_game p \<and> the_round g = r_pk r) (games s))
                       (gameplayers s)))))"

subsection \<open>TScoringSum and Tournament.scores\<close>

fun score_rounds ::
  "state \<Rightarrow> round list \<Rightarrow> (nat \<rightharpoonup> (nat \<rightharpoonup> rat)) \<Rightarrow> error + ((nat \<rightharpoonup> (nat \<rightharpoonup> rat)) \<times> state)" where
  "score_rounds s [] acc = Inr (acc, s)"
| "score_rounds s (r # rs) acc =
     (case round_scores s r False of
        Inl e \<Rightarrow> Inl e
      | Inr (d, s') \<Rightarrow> score_rounds s' rs (acc(r_pk r \<mapsto> d)))"

text \<open>
  \<open>player_scores\<close>: a KeyError of \<open>round_scores[r.the_round][r.player]\<close> is caught
  and the round skipped.
\<close>

fun player_round_scores ::
  "(nat \<rightharpoonup> (nat \<rightharpoonup> rat)) \<Rightarrow> roundplayer list \<Rightarrow> rat list" where
  "player_round_scores rsc [] = []"
| "player_round_scores rsc (r # rs) =
     (case rsc (rp_round r) of
        None \<Rightarrow> player_round_scores rsc rs
      | Some d \<Rightarrow>
          (case d (rp_player r) of
             None \<Rightarrow> player_round_scores rsc rs
           | Some v \<Rightarrow> v # player_round_scores rsc rs))"

fun sum_best ::
  "nat \<Rightarrow> (nat \<rightharpoonup> (nat \<rightharpoonup> rat)) \<Rightarrow> roundplayer list \<Rightarrow> nat list \<Rightarrow> (nat \<rightharpoonup> rat) \<Rightarrow> (nat \<rightharpoonup> rat)" where
  "sum_best scored_rounds rsc round_players [] retval = retval"
| "sum_best scored_rounds rsc round_players (p # ps) retval =
     (if retval p \<noteq> None then sum_best scored_rounds rsc round_players ps retval
      else
        sum_best scored_rounds rsc round_players ps
          (retval(p \<mapsto>
             sum_list (take scored_rounds
               (rev (sort (player_round_scores rsc
                             (filter (\<lambda>r. rp_player r = p) round_players))))))))"

definition TScoringSum_scores ::
  "nat \<Rightarrow> state \<Rightarrow> roundplayer list \<Rightarrow> error + ((nat \<rightharpoonup> rat) \<times> state)" where
  "TScoringSum_scores scored_rounds s round_players =
     (case score_rounds s
             (concat (map (\<lambda>r. map (\<lambda>p. r) (filter (\<lambda>p. rp_round p = r_pk r) round_players)) (rounds s)))
             Map.empty of
        Inl e \<Rightarrow> Inl e
      | Inr (rsc, s') \<Rightarrow>
          Inr (sum_best scored_rounds rsc round_players (map rp_player round_players) Map.empty, s'))"

definition stored_tournament_scores :: "state \<Rightarrow> nat \<Rightarrow> (nat \<rightharpoonup> rat)" where
  "stored_tournament_scores s tid =
     dict_from tp_player tp_score (filter (\<lambda>p. tp_tournament p = tid) (tournamentplayers s))"

definition tournament_scores :: "state \<Rightarrow> tournament \<Rightarrow> bool \<Rightarrow> error + ((nat \<rightharpoonup> rat) \<times> state)" where
  "tournament_scores s t force_recalculation =
     (if tournament_is_finished s (t_pk t) \<and> \<not> force_recalculation
      then Inr (stored_tournament_scores s (t_pk t), s)
      else
        (case find_tournament_scoring_system (tournament_scoring_system t) of
           None \<Rightarrow> Inl (InvalidScoringSystem (tournament_scoring_system t))
         | Some (TScoringSum scored_rounds) \<Rightarrow>
             TScoringSum_scores scored_rounds s
               (filter (\<lambda>p. list_ex (\<lambda>r. r_pk r = rp_round p \<and> r_tournament r = t_pk t) (rounds s))
                       (roundplayers s))))"

section \<open>Game.save\<close>

text \<open>
  \<open>super(Game, self).save()\<close> writes the row of the Game object: it replaces the
  row with the object's primary key, or inserts the object.
\<close>

definition save_row :: "game \<Rightarrow> game list \<Rightarrow> game list" where
  "save_row g rows =
     (if list_ex (\<lambda>x. g_pk x = g_pk g) rows
      then map (\<lambda>x. if g_pk x = g_pk g then g else x) rows
      else rows @ [g])"

text \<open>
  \<open>get_or_create\<close> looks the row up by all the fields given; when there is none it
  inserts one, and the insert fails with IntegrityError when a row with the same
  \<open>unique_together\<close> key is stored already.
\<close>

definition get_or_create :: "('a \<Rightarrow> 'a \<Rightarrow> bool) \<Rightarrow> 'a \<Rightarrow> 'a list \<Rightarrow> error + 'a list" where
  "get_or_create same_key row rows =
     (case filter (\<lambda>x. x = row) rows of
        [] \<Rightarrow> if list_ex (same_key row) rows then Inl IntegrityError else Inr (rows @ [row])
      | [x] \<Rightarrow> Inr rows
      | _ \<Rightarrow> Inl MultipleObjectsReturned)"

definition cc_same_key :: "centrecount \<Rightarrow> centrecount \<Rightarrow> bool" where
  "cc_same_key a b = (cc_power a = cc_power b \<and> cc_game a = cc_game b \<and> cc_year a = cc_year b)"

definition gi_same_key :: "gameimage \<Rightarrow> gameimage \<Rightarrow> bool" where
  "gi_same_key a b =
     (gi_game a = gi_game b \<and> gi_year a = gi_year b \<and> gi_season a = gi_season b \<and> gi_phase a = gi_phase b)"

text \<open>
  The guards of \<open>CentreCount.save\<close> under which it sets \<open>game.is_finished\<close> and
  calls \<open>game.save()\<close>. \<open>final_year and ...\<close> is false for \<open>None\<close> and for 0.
\<close>

definition completes_game :: "int option \<Rightarrow> centrecount \<Rightarrow> bool" where
  "completes_game final_year c =
     ((case final_year of None \<Rightarrow> False | Some y \<Rightarrow> y \<noteq> 0 \<and> cc_year c = y)
      \<or> cc_count c \<ge> WINNING_SCS)"

text \<open>
  The loop over \<open>GreatPower.objects.all()\<close>. Each pass runs \<open>get_or_create\<close> and
  then \<open>i.save()\<close>, which is \<open>CentreCount.save\<close>. Were one of its guards true for
  a 1900 row, it would call \<open>Game.save\<close> on the same Game object again, which reaches
  the same row again: the recursion has no base case and Python ends it with RuntimeError.
\<close>

definition start_row :: "nat \<Rightarrow> greatpower \<Rightarrow> centrecount" where
  "start_row gid pw =
     \<lparr>cc_power = gp_pk pw, cc_game = gid, cc_year = FIRST_YEAR - 1, cc_count = starting_centres pw\<rparr>"

fun start_counts :: "nat \<Rightarrow> nat \<Rightarrow> round list \<Rightarrow> greatpower list \<Rightarrow> centrecount list \<Rightarrow> error + centrecount list" where
  "start_counts gid rid rnds [] ccs = Inr ccs"
| "start_counts gid rid rnds (pw # ps) ccs =
     (let row = start_row gid pw
      in case get_or_create cc_same_key row ccs of
           Inl e \<Rightarrow> Inl e
         | Inr ccs' \<Rightarrow>
             (case qs_get (\<lambda>r. r_pk r = rid) rnds of
                Inl e \<Rightarrow> Inl e
              | Inr r \<Rightarrow>
                  if completes_game (round_final_year r) row then Inl RuntimeError
                  else start_counts gid rid rnds ps ccs'))"

definition S1901M_IMAGE :: string where
  "S1901M_IMAGE = ''s1901m.gif''"

definition start_image :: "nat \<Rightarrow> gameimage list \<Rightarrow> error + gameimage list" where
  "start_image gid imgs =
     get_or_create gi_same_key
       \<lparr>gi_game = gid, gi_year = FIRST_YEAR, gi_season = ''S'', gi_phase = ''M'',
        gi_image = S1901M_IMAGE\<rparr> imgs"

text \<open>The three loops that store scores on the player rows.\<close>

fun store_game_scores :: "nat \<Rightarrow> (nat \<rightharpoonup> rat) \<Rightarrow> gameplayer list \<Rightarrow> error + gameplayer list" where
  "store_game_scores gid scores [] = Inr []"
| "store_game_scores gid scores (p # ps) =
     (if gpl_game p = gid
      then (case scores (gpl_power p) of
              None \<Rightarrow> Inl KeyError
            | Some v \<Rightarrow>
                (case store_game_scores gid scores ps of
                   Inl e \<Rightarrow> Inl e
                 | Inr ps' \<Rightarrow> Inr (p\<lparr>gpl_score := v\<rparr> # ps')))
      else (case store_game_scores gid scores ps of
              Inl e \<Rightarrow> Inl e
            | Inr ps' \<Rightarrow> Inr (p # ps')))"

definition store_round_scores :: "nat \<Rightarrow> (nat \<rightharpoonup> rat) \<Rightarrow> roundplayer list \<Rightarrow> roundplayer list" where
  "store_round_scores rid scores rps =
     map (\<lambda>p. if rp_round p = rid
              then (case scores (rp_player p) of None \<Rightarrow> p | Some v \<Rightarrow> p\<lparr>rp_score := v\<rparr>)
              else p) rps"

fun store_tournament_scores ::
  "nat \<Rightarrow> (nat \<rightharpoonup> rat) \<Rightarrow> tournamentplayer list \<Rightarrow> error + tournamentplayer list" where
  "store_tournament_scores tid scores [] = Inr []"
| "store_tournament_scores tid scores (p # ps) =
     (if tp_tournament p = tid
      then (case scores (tp_player p) of
              None \<Rightarrow> Inl KeyError
            | Some v \<Rightarrow>
                (case store_tournament_scores tid scores ps of
                   Inl e \<Rightarrow> Inl e
                 | Inr ps' \<Rightarrow> Inr (p\<lparr>tp_score := v\<rparr> # ps')))
      else (case store_tournament_scores tid scores ps of
              Inl e \<Rightarrow> Inl e
            | Inr ps' \<Rightarrow> Inr (p # ps')))"

text \<open>The block \<open>If the game is (now) finished, store the player scores\<close>.\<close>

definition save_game_block :: "state \<Rightarrow> game \<Rightarrow> error + state" where
  "save_game_block s g =
     (case game_scores s g True of
        Inl e \<Rightarrow> Inl e
      | Inr (scores, s1) \<Rightarrow>
          (case store_game_scores (g_pk g) scores (gameplayers s1) of
             Inl e \<Rightarrow> Inl e
           | Inr gps \<Rightarrow>
               Inr (s1\<lparr>gameplayers := gps,
                       score_writes := score_writes s1 @ [StoredGameScores (g_pk g)]\<rparr>)))"

definition save_round_block :: "state \<Rightarrow> round \<Rightarrow> error + state" where
  "save_round_block s r =
     (if round_is_finished s (r_pk r)
      then (case round_scores s r True of
              Inl e \<Rightarrow> Inl e
            | Inr (scores, s1) \<Rightarrow>
                Inr (s1\<lparr>roundplayers := store_round_scores (r_pk r) scores (roundplayers s1),
                        score_writes := score_writes s1 @ [StoredRoundScores (r_pk r)]\<rparr>))
      else Inr s)"

definition save_tournament_block :: "state \<Rightarrow> tournament \<Rightarrow> error + state" where
  "save_tournament_block s t =
     (if tournament_is_finished s (t_pk t)
      then (case tournament_scores s t True of
              Inl e \<Rightarrow> Inl e
            | Inr (scores, s1) \<Rightarrow>
                (case store_tournament_scores (t_pk t) scores (tournamentplayers s1) of
                   Inl e \<Rightarrow> Inl e
                 | Inr tps \<Rightarrow>
                     Inr (s1\<lparr>tournamentplayers := tps,
                             score_writes := score_writes s1 @ [StoredTournamentScores (t_pk t)]\<rparr>)))
      else Inr s)"

definition finalize :: "state \<Rightarrow> game \<Rightarrow> error + state" where
  "finalize s g =
     (case save_game_block s g of
        Inl e \<Rightarrow> Inl e
      | Inr s1 \<Rightarrow>
     (case qs_get (\<lambda>r. r_pk r = the_round g) (rounds s1) of
        Inl e \<Rightarrow> Inl e
      | Inr r \<Rightarrow>
     (case save_round_block s1 r of
        Inl e \<Rightarrow> Inl e
      | Inr s2 \<Rightarrow>
     (case qs_get (\<lambda>t. t_pk t = r_tournament r) (tournaments s2) of
        Inl e \<Rightarrow> Inl e
      | Inr t \<Rightarrow> save_tournament_block s2 t))))"

text \<open>
  \<open>Game.save\<close> on the Game object \<open>g\<close>. An exception ends the operation; the
  state it leaves behind is not modelled.
\<close>

definition save :: "state \<Rightarrow> game \<Rightarrow> error + state" where
  "save s g =
     (let s0 = s\<lparr>games := save_row g (games s)\<rparr>
      in case start_counts (g_pk g) (the_round g) (rounds s0) (greatpowers s0) (centrecounts s0) of
           Inl e \<Rightarrow> Inl e
         | Inr ccs \<Rightarrow>
             (case start_image (g_pk g) (gameimages s0) of
                Inl e \<Rightarrow> Inl e
              | Inr imgs \<Rightarrow>
                  (let s1 = s0\<lparr>centrecounts := ccs, gameimages := imgs\<rparr>
                   in if is_finished g then finalize s1 g else Inr s1)))"

section \<open>CentreCount validation\<close>

definition validate_year_including_start :: "int \<Rightarrow> error + unit" where
  "validate_year_including_start v =
     (if v < FIRST_YEAR - 1 then Inl (ValidationError ''%(value)d is not a valid game year'')
      else Inr ())"

definition validate_sc_count :: "int \<Rightarrow> error + unit" where
  "validate_sc_count v =
     (if v < 0 \<or> v > TOTAL_SCS then Inl (ValidationError ''%(value)d is not a valid SC count'')
      else Inr ())"

text \<open>
  \<open>CentreCount.clean\<close> on the object \<open>c\<close>. The round of the object's game is
  looked up through \<open>self.game.the_round\<close>.
\<close>

definition clean :: "state \<Rightarrow> centrecount \<Rightarrow> error + unit" where
  "clean s c =
     (case qs_get (\<lambda>g. g_pk g = cc_game c) (games s) of
        Inl e \<Rightarrow> Inl e
      | Inr g \<Rightarrow>
     (case qs_get (\<lambda>r. r_pk r = the_round g) (rounds s) of
        Inl e \<Rightarrow> Inl e
      | Inr r \<Rightarrow>
          if (case round_final_year r of None \<Rightarrow> False | Some fy \<Rightarrow> fy \<noteq> 0 \<and> cc_year c > fy)
          then Inl (ValidationError ''Games in this round end with %(year)d'')
          else
            (case qs_get (\<lambda>p. cc_power p = cc_power c \<and> cc_game p = cc_game c
                                \<and> cc_year p = cc_year c - 1) (centrecounts s) of
               Inl DoesNotExist \<Rightarrow> Inr ()
             | Inl e \<Rightarrow> Inl e
             | Inr prev \<Rightarrow>
                 if cc_count c > 2 * cc_count prev
                 then Inl (ValidationError ''SC count for a power cannot more than double in a year'')
                 else if cc_count prev = 0 \<and> cc_count c > 0
                 then Inl (ValidationError ''SC count for a power cannot increase from zero'')
                 else Inr ())))"

section \<open>Example data\<close>

text \<open>
  The seven Great Powers with their standard starting centres (primary keys 1 to 7:
  Austria-Hungary, England, France, Germany, Italy, Russia, Turkey), and a database with
  one tournament, one round and one game that is still in progress; player \<open>10 + p\<close>
  plays power \<open>p\<close>.
\<close>

definition seven_powers :: "greatpower list" where
  "seven_powers =
     [\<lparr>gp_pk = 1, gp_name = ''Austria-Hungary'', starting_centres = 3\<rparr>,
      \<lparr>gp_pk = 2, gp_name = ''England'', starting_centres = 3\<rparr>,
      \<lparr>gp_pk = 3, gp_name = ''France'', starting_centres = 3\<rparr>,
      \<lparr>gp_pk = 4, gp_name = ''Germany'', starting_centres = 3\<rparr>,
      \<lparr>gp_pk = 5, gp_name = ''Italy'', starting_centres = 3\<rparr>,
      \<lparr>gp_pk = 6, gp_name = ''Russia'', starting_centres = 4\<rparr>,
      \<lparr>gp_pk = 7, gp_name = ''Turkey'', starting_centres = 3\<rparr>]"

definition year_counts :: "nat \<Rightarrow> int \<Rightarrow> int list \<Rightarrow> centrecount list" where
  "year_counts gid y cs =
     map (\<lambda>(p, c). \<lparr>cc_power = p, cc_game = gid, cc_year = y, cc_count = c\<rparr>) (zip [1..<8] cs)"

text \<open>
  Ledgers of a game from 1900 on, one list of seven counts per year. Each respects the
  rules that \<open>CentreCount.clean\<close> checks.
\<close>

definition history :: "nat \<Rightarrow> int list list \<Rightarrow> centrecount list" where
  "history gid rows =
     concat (map (\<lambda>(i, cs). year_counts gid (1900 + int i) cs) (zip [0..<length rows] rows))"

definition tie_ledger :: "centrecount list" where
  "tie_ledger = history 1
     [[3, 3, 3, 3, 3, 4, 3], [5, 5, 5, 4, 3, 5, 3], [7, 7, 6, 3, 2, 5, 2], [9, 9, 6, 2, 0, 4, 0],
      [10, 10, 6, 0, 0, 0, 0]]"

definition lead_ledger :: "centrecount list" where
  "lead_ledger = history 2
     [[3, 3, 3, 3, 3, 4, 3], [5, 5, 5, 4, 3, 5, 3], [7, 7, 6, 3, 2, 5, 2], [9, 9, 6, 2, 0, 4, 0],
      [12, 10, 6, 0, 0, 0, 0]]"

definition draw_ledger :: "centrecount list" where
  "draw_ledger = history 1
     [[3, 3, 3, 3, 3, 4, 3], [5, 5, 5, 4, 3, 5, 3], [7, 7, 8, 3, 2, 5, 2], [9, 9, 11, 2, 0, 3, 0],
      [10, 10, 14, 0, 0, 0, 0]]"

definition solo_ledger :: "centrecount list" where
  "solo_ledger = history 1
     [[3, 3, 3, 3, 3, 4, 3], [5, 5, 4, 5, 4, 5, 4], [8, 6, 4, 5, 3, 5, 3], [12, 6, 4, 5, 4, 2, 1],
      [16, 6, 4, 4, 3, 1, 0], [18, 6, 4, 4, 2, 0, 0]]"

definition example_db :: "string \<Rightarrow> centrecount list \<Rightarrow> drawproposal list \<Rightarrow> state" where
  "example_db system_name ccs draws =
     \<lparr>greatpowers = seven_powers,
      tournaments = [\<lparr>t_pk = 1, tournament_scoring_system = ''Sum best 2 rounds'',
                      round_scoring_system = ''Best game counts''\<rparr>],
      rounds = [\<lparr>r_pk = 1, r_tournament = 1, scoring_system = system_name, dias = False,
                 round_final_year = None\<rparr>],
      games = [\<lparr>g_pk = 1, is_finished = False, the_round = 1\<rparr>],
      centrecounts = ccs,
      drawproposals = draws,
      gameplayers = map (\<lambda>p. \<lparr>gpl_player = 10 + p, gpl_game = 1, gpl_power = p, gpl_score = 0\<rparr>) [1..<8],
      roundplayers = map (\<lambda>p. \<lparr>rp_player = 10 + p, rp_round = 1, rp_score = 0\<rparr>) [1..<8],
      tournamentplayers = map (\<lambda>p. \<lparr>tp_player = 10 + p, tp_tournament = 1, tp_score = 0\<rparr>) [1..<8],
      gameimages = [],
      G_SCORING_SYSTEMS = G_SCORING_SYSTEMS_initial,
      score_writes = []\<rparr>"

definition game_1 :: game where
  "game_1 = \<lparr>g_pk = 1, is_finished = False, the_round = 1\<rparr>"

text \<open>
  A database in which tournament 1 has no round and round 1 (of tournament 2) has no game.
\<close>

definition empty_rounds_db :: state where
  "empty_rounds_db =
     \<lparr>greatpowers = seven_powers,
      tournaments = [\<lparr>t_pk = 1, tournament_scoring_system = ''Sum best 2 rounds'',
                      round_scoring_system = ''Best game counts''\<rparr>,
                     \<lparr>t_pk = 2, tournament_scoring_system = ''Sum best 2 rounds'',
                      round_scoring_system = ''Best game counts''\<rparr>],
      rounds = [\<lparr>r_pk = 1, r_tournament = 2, scoring_system = ''Draw size'', dias = True,
                 round_final_year = None\<rparr>],
      games = [], centrecounts = [], drawproposals = [], gameplayers = [], roundplayers = [],
      tournamentplayers = [], gameimages = [],
      G_SCORING_SYSTEMS = G_SCORING_SYSTEMS_initial, score_writes = []\<rparr>"

text \<open>
  A ledger with the years 1900 and 1901 recorded for game 1, and a CentreCount object about
  to be recorded for that game.
\<close>

definition ledger_db :: state where
  "ledger_db =
     example_db ''Draw size''
       (year_counts 1 1900 [3, 3, 3, 3, 3, 4, 3] @ year_counts 1 1901 [4, 5, 5, 0, 5, 5, 5]) []"

definition new_count :: "nat \<Rightarrow> int \<Rightarrow> int \<Rightarrow> centrecount" where
  "new_count p y n = \<lparr>cc_power = p, cc_game = 1, cc_year = y, cc_count = n\<rparr>"

text \<open>A passed draw proposal of game 1 with the given \<open>power_n\<close> fields.\<close>

definition draw_of :: "nat option list \<Rightarrow> drawproposal" where
  "draw_of ps = \<lparr>dp_game = 1, dp_passed = True, dp_power_ids = ps\<rparr>"

text \<open>
  Game 1 after a replacement: Austria (power 1) was played by player 11 and then by
  player 21, and reaches 18 centres in 1905.
\<close>

definition replacement_db :: state where
  "replacement_db =
     (example_db ''Draw size'' solo_ledger [])
     \<lparr>gameplayers :=
        gameplayers (example_db ''Draw size'' [] [])
        @ [\<lparr>gpl_player = 21, gpl_game = 1, gpl_power = 1, gpl_score = 0\<rparr>]\<rparr>"



section \<open>Auxiliary notions\<close>


section \<open>Dictionaries built by a loop\<close>

lemma fold_upd_other:
  "p \<notin> k ` set xs \<Longrightarrow> fold (\<lambda>x m. m(k x \<mapsto> v x)) xs m0 p = m0 p"
  by (induction xs arbitrary: m0) auto

lemma fold_upd_lookup:
  "distinct (map k xs) \<Longrightarrow> x \<in> set xs \<Longrightarrow> fold (\<lambda>x m. m(k x \<mapsto> v x)) xs m0 (k x) = Some (v x)"
proof (induction xs arbitrary: m0)
  case Nil
  then show ?case by simp
next
  case (Cons a xs)
  show ?case
  proof (cases "x = a")
    case True
    have "k a \<notin> k ` set xs" using Cons.prems(1) by simp
    then have "fold (\<lambda>x m. m(k x \<mapsto> v x)) xs (m0(k a \<mapsto> v a)) (k a) = (m0(k a \<mapsto> v a)) (k a)"
      by (rule fold_upd_other)
    then show ?thesis unfolding True by (simp only: fold_simps o_apply fun_upd_same)
  next
    case False
    then show ?thesis using Cons by simp
  qed
qed

lemma fold_upd_dom:
  "dom (fold (\<lambda>x m. m(k x \<mapsto> v x)) xs m0) = dom m0 \<union> k ` set xs"
  by (induction xs arbitrary: m0) auto

lemma dict_from_lookup:
  "distinct (map k xs) \<Longrightarrow> x \<in> set xs \<Longrightarrow> dict_from k v xs (k x) = Some (v x)"
  unfolding dict_from_def by (rule fold_upd_lookup)

lemma dict_from_other: "p \<notin> k ` set xs \<Longrightarrow> dict_from k v xs p = None"
  unfolding dict_from_def by (simp add: fold_upd_other)

lemma dict_from_dom: "dom (dict_from k v xs) = k ` set xs"
  unfolding dict_from_def by (simp only: fold_upd_dom dom_empty Un_empty_left)

section \<open>Properties of adjust_rank_score\<close>

subsection \<open>The loops in closed form\<close>

lemma top_tie_closed:
  "top_tie C P scs i n pts =
    (i + length (takeWhile (\<lambda>c. cc_count c = scs) (drop i C)),
     n + length (takeWhile (\<lambda>c. cc_count c = scs) (drop i C)),
     pts + sum_list (take (length (takeWhile (\<lambda>c. cc_count c = scs) (drop i C))) (drop i P)))"
proof (induction C P scs i n pts rule: top_tie.induct)
  case (1 C P scs i n pts)
  show ?case
  proof (cases "i < length C \<and> cc_count (C ! i) = scs")
    case True
    then have d: "drop i C = C ! i # drop (Suc i) C" by (simp add: Cons_nth_drop_Suc)
    show ?thesis
    proof (cases "i < length P")
      case T2: True
      then have dp: "drop i P = P ! i # drop (Suc i) P" by (simp add: Cons_nth_drop_Suc)
      show ?thesis using True T2 1 d dp
        by (subst top_tie.simps) simp
    next
      case False
      then show ?thesis using True 1 d
        by (subst top_tie.simps) simp
    qed
  next
    case False
    have "takeWhile (\<lambda>c. cc_count c = scs) (drop i C) = []"
    proof (cases "i < length C")
      case True
      then have "drop i C = C ! i # drop (Suc i) C" by (simp add: Cons_nth_drop_Suc)
      with False True show ?thesis by simp
    next
      case False
      then show ?thesis by simp
    qed
    with False show ?thesis
      by (subst top_tie.simps) auto
  qed
qed

lemma share_points_closed: "share_points i v P = replicate i v @ drop i P"
proof (induction i)
  case 0
  show ?case by (simp add: share_points_def)
next
  case (Suc i)
  let ?f = "\<lambda>j rp. if j < length rp then rp[j := v] else rp @ [v]"
  have "share_points (Suc i) v P = ?f i (share_points i v P)"
    by (simp add: share_points_def)
  also have "\<dots> = ?f i (replicate i v @ drop i P)"
    by (simp only: Suc)
  also have "\<dots> = replicate (Suc i) v @ drop (Suc i) P"
  proof (cases "i < length P")
    case True
    then have "drop i P = P ! i # drop (Suc i) P" by (simp add: Cons_nth_drop_Suc)
    then show ?thesis using True
      by (simp add: list_update_append replicate_append_same)
  next
    case False
    then show ?thesis by (simp add: replicate_append_same)
  qed
  finally show ?case .
qed

lemma tie_len_pos: "C \<noteq> [] \<Longrightarrow> 0 < tie_len C"
  by (cases C) (simp_all add: tie_len_def)

lemma tie_len_le: "tie_len C \<le> length C"
  by (simp add: tie_len_def length_takeWhile_le)


lemma adjust_no_counts: "P \<noteq> [] \<Longrightarrow> adjust_rank_score [] P = Inl IndexError"
  by (subst adjust_rank_score.simps) simp

text \<open>
  One unfolding of the recursion. The branch for \<open>i = 0\<close> is never taken: the first
  centre count always equals itself.
\<close>

lemma adjust_unfold:
  assumes "P \<noteq> []" "C \<noteq> []"
  shows "adjust_rank_score C P =
    (case adjust_rank_score (drop (tie_len C) C) (drop (tie_len C) P) of
       Inl e \<Rightarrow> Inl e
     | Inr rest \<Rightarrow>
         Inr (replicate (tie_len C) (sum_list (take (tie_len C) P) / of_nat (tie_len C)) @ fst rest,
              replicate (tie_len C) (sum_list (take (tie_len C) P) / of_nat (tie_len C)) @ drop (tie_len C) P))"
proof -
  have k: "tie_len C \<noteq> 0" using tie_len_pos [OF assms(2)] by simp
  show ?thesis
    using assms k
    by (subst adjust_rank_score.simps)
       (simp add: top_tie_closed share_points_closed tie_len_def [symmetric] Let_def split: sum.split)
qed

subsection \<open>Conservation, failure and the effect on the argument\<close>


lemma adjust_too_many_points:
  "length C < length P \<Longrightarrow> adjust_rank_score C P = Inl IndexError"
proof (induction C arbitrary: P rule: length_induct)
  case (1 C)
  then have P: "P \<noteq> []" by auto
  show ?case
  proof (cases "C = []")
    case True
    then show ?thesis using P by (simp add: adjust_no_counts)
  next
    case False
    let ?k = "tie_len C"
    have kpos: "0 < ?k" by (rule tie_len_pos [OF False])
    have kle: "?k \<le> length C" by (rule tie_len_le)
    have "length (drop ?k C) < length C" using kpos False by simp
    moreover have "length (drop ?k C) < length (drop ?k P)" using 1(2) kle by simp
    ultimately have "adjust_rank_score (drop ?k C) (drop ?k P) = Inl IndexError"
      using 1(1) by blast
    then show ?thesis by (simp add: adjust_unfold [OF P False])
  qed
qed



text \<open>
  The list object passed as \<open>rank_points\<close> after the call: its first \<open>tie_len C\<close>
  positions hold the shared value. A second call with the same centre counts finds the
  list already in that form.
\<close>

lemma adjust_argument_after:
  assumes "adjust_rank_score C P = Inr (r, P')" "P \<noteq> []"
  shows "P' = replicate (tie_len C) (sum_list (take (tie_len C) P) / of_nat (tie_len C)) @ drop (tie_len C) P"
proof -
  have C: "C \<noteq> []" using assms by (auto simp: adjust_no_counts)
  show ?thesis using assms(1)
    by (auto simp: adjust_unfold [OF assms(2) C] split: sum.splits)
qed





section \<open>GScoringCDiplo\<close>

text \<open>
  Claim C4 (tie-break purity) at a failing input. \<open>adjust_rank_score\<close> writes the
  shared value into the list it is given, and \<open>GScoringCDiplo.scores\<close> gives it the
  instance's own \<open>position_pts\<close>. After the CDiplo 80 instance scores a game that
  ends 10, 10, 6, 0, 0, 0, 0, its position points are 19.5, 19.5, 7 and no longer
  25, 14, 7; the next game it scores, ending 12, 10, 6, 0, 0, 0, 0, gives the sole leader
  12 + 19.5 = 31.5 and the second power 10 + 19.5 = 29.5, where a fresh instance gives
  12 + 25 = 37 and 10 + 14 = 24.
\<close>

theorem position_pts_changed_by_scores:
  "map_sum id snd (adjust_rank_score (year_counts 1 1904 [10, 10, 6, 0, 0, 0, 0]) [25, 14, 7])
     = Inr [39 / 2, 39 / 2, 7]
   \<and> map_sum id snd
        (system_scores (example_db ''CDiplo 80'' tie_ledger [])
           (GScoringCDiplo ''CDiplo 80'' 80 0 [25, 14, 7] 0) tie_ledger)
     = Inr (GScoringCDiplo ''CDiplo 80'' 80 0 [39 / 2, 39 / 2, 7] 0)
   \<and> map_sum id (\<lambda>(d, sys). map d [1, 2, 3])
        (system_scores (example_db ''CDiplo 80'' tie_ledger [])
           (GScoringCDiplo ''CDiplo 80'' 80 0 [39 / 2, 39 / 2, 7] 0) lead_ledger)
     = Inr [Some (63 / 2), Some (59 / 2), Some 13]
   \<and> map_sum id (\<lambda>(d, sys). map d [1, 2, 3])
        (system_scores (example_db ''CDiplo 80'' tie_ledger [])
           (GScoringCDiplo ''CDiplo 80'' 80 0 [25, 14, 7] 0) lead_ledger)
     = Inr [Some 37, Some 24, Some 13]"
  by code_simp

text \<open>
  Claim C5 (CDiplo 80 end-to-end scenario). With the scoring instances as the module
  creates them, a game in progress whose final year reads Austria 10, England 10, France 6
  and 0 for the other four powers, with no solo and no draw, is scored by the CDiplo 80
  system of its round as 29.5, 29.5, 13, 0, 0, 0, 0.
\<close>

theorem cdiplo_80_scenario:
  "map_sum id (\<lambda>(d, s'). map d [1, 2, 3, 4, 5, 6, 7])
     (game_scores (example_db ''CDiplo 80'' tie_ledger []) game_1 False)
   = Inr [Some (59 / 2), Some (59 / 2), Some 13, Some 0, Some 0, Some 0, Some 0]"
  by code_simp

section \<open>Round.is_finished and Tournament.is_finished\<close>

text \<open>
  Claim C9 (emptiness asymmetry). A tournament without rounds is finished; a round without
  games is not.
\<close>

theorem is_finished_emptiness:
  "(filter (\<lambda>r. r_tournament r = tid) (rounds s) = [] \<longrightarrow> tournament_is_finished s tid = True)
   \<and> (filter (\<lambda>g. the_round g = rid) (games s) = [] \<longrightarrow> round_is_finished s rid = False)"
  by (simp add: tournament_is_finished_def round_is_finished_def)

theorem is_finished_emptiness_witness:
  "filter (\<lambda>r. r_tournament r = 1) (rounds empty_rounds_db) = []
   \<and> tournament_is_finished empty_rounds_db 1 = True
   \<and> filter (\<lambda>g. the_round g = 1) (games empty_rounds_db) = []
   \<and> round_is_finished empty_rounds_db 1 = False"
  using is_finished_emptiness [of 1 empty_rounds_db 1]
  by (simp add: empty_rounds_db_def)

section \<open>CentreCount.clean\<close>

text \<open>
  Claim C7 (ledger progression validation). For a CentreCount object whose game and round
  exist: when exactly one record of the same power and game is stored for the year before
  and the new count is more than twice that record's count, or that count is 0 and the new
  one is positive, \<open>clean\<close> raises ValidationError; when no record is stored for the
  year before, the count is within 0 to 34 and the year is at least 1900 and not after the
  round's final year, \<open>clean\<close> returns and both field validators accept the object.
\<close>

theorem clean_progression:
  assumes "qs_get (\<lambda>g. g_pk g = cc_game c) (games s) = Inr g"
      and "qs_get (\<lambda>r. r_pk r = the_round g) (rounds s) = Inr r"
  shows "(filter (\<lambda>p. cc_power p = cc_power c \<and> cc_game p = cc_game c \<and> cc_year p = cc_year c - 1)
                 (centrecounts s) = [prev]
          \<and> (cc_count c > 2 * cc_count prev \<or> (cc_count prev = 0 \<and> cc_count c > 0))
          \<longrightarrow> (\<exists>msg. clean s c = Inl (ValidationError msg)))
       \<and> (filter (\<lambda>p. cc_power p = cc_power c \<and> cc_game p = cc_game c \<and> cc_year p = cc_year c - 1)
                 (centrecounts s) = []
          \<and> 0 \<le> cc_count c \<and> cc_count c \<le> 34 \<and> FIRST_YEAR - 1 \<le> cc_year c
          \<and> (\<forall>fy. round_final_year r = Some fy \<longrightarrow> cc_year c \<le> fy)
          \<longrightarrow> clean s c = Inr ()
              \<and> validate_sc_count (cc_count c) = Inr ()
              \<and> validate_year_including_start (cc_year c) = Inr ())"
  using assms
  by (auto simp: clean_def qs_get_def validate_sc_count_def validate_year_including_start_def
        TOTAL_SCS_def split: option.splits)

theorem clean_progression_witness:
  "qs_get (\<lambda>g. g_pk g = 1) (games ledger_db) = Inr game_1
   \<and> filter (\<lambda>p. cc_power p = 1 \<and> cc_game p = 1 \<and> cc_year p = 1902 - 1) (centrecounts ledger_db)
       = [new_count 1 1901 4]
   \<and> (\<exists>msg. clean ledger_db (new_count 1 1902 10) = Inl (ValidationError msg))
   \<and> filter (\<lambda>p. cc_power p = 4 \<and> cc_game p = 1 \<and> cc_year p = 1902 - 1) (centrecounts ledger_db)
       = [new_count 4 1901 0]
   \<and> (\<exists>msg. clean ledger_db (new_count 4 1902 5) = Inl (ValidationError msg))
   \<and> filter (\<lambda>p. cc_power p = 1 \<and> cc_game p = 1 \<and> cc_year p = 1903 - 1) (centrecounts ledger_db) = []
   \<and> clean ledger_db (new_count 1 1903 5) = Inr ()"
proof -
  let ?r = "\<lparr>r_pk = 1, r_tournament = 1, scoring_system = ''Draw size'', dias = False,
             round_final_year = None\<rparr>"
  have g: "\<And>c. cc_game c = 1 \<Longrightarrow> qs_get (\<lambda>g. g_pk g = cc_game c) (games ledger_db) = Inr game_1"
    by (simp add: ledger_db_def example_db_def qs_get_def game_1_def)
  have r: "qs_get (\<lambda>r. r_pk r = the_round game_1) (rounds ledger_db) = Inr ?r"
    by (simp add: ledger_db_def example_db_def qs_get_def game_1_def)
  have f1: "filter (\<lambda>p. cc_power p = 1 \<and> cc_game p = 1 \<and> cc_year p = 1902 - 1) (centrecounts ledger_db)
       = [new_count 1 1901 4]"
    by code_simp
  have f2: "filter (\<lambda>p. cc_power p = 4 \<and> cc_game p = 1 \<and> cc_year p = 1902 - 1) (centrecounts ledger_db)
       = [new_count 4 1901 0]"
    by code_simp
  have f3: "filter (\<lambda>p. cc_power p = 1 \<and> cc_game p = 1 \<and> cc_year p = 1903 - 1) (centrecounts ledger_db) = []"
    by code_simp
  have c1: "\<exists>msg. clean ledger_db (new_count 1 1902 10) = Inl (ValidationError msg)"
    using clean_progression [OF g r, of "new_count 1 1902 10" "new_count 1 1901 4"] f1
    by (simp add: new_count_def)
  have c2: "\<exists>msg. clean ledger_db (new_count 4 1902 5) = Inl (ValidationError msg)"
    using clean_progression [OF g r, of "new_count 4 1902 5" "new_count 4 1901 0"] f2
    by (simp add: new_count_def)
  have c3: "clean ledger_db (new_count 1 1903 5) = Inr ()"
    using clean_progression [OF g r, of "new_count 1 1903 5"] f3
    by (simp add: new_count_def FIRST_YEAR_def)
  show ?thesis using g [of "new_count 1 1902 10"] f1 f2 f3 c1 c2 c3
    by (simp add: new_count_def)
qed

section \<open>GScoringSumOfSquares\<close>

lemma if_upd: "(if b then m(k \<mapsto> x) else m(k \<mapsto> y)) = m(k \<mapsto> (if b then x else y))"
  by simp

lemma sum_of_squares_pass_from:
  "fold (\<lambda>sc (retval, retval_solo, sum_of_squares, solo_found).
             (retval(cc_power sc \<mapsto> rat_of_int (cc_count sc * cc_count sc) * 100),
              (if cc_count sc \<ge> WINNING_SCS
               then retval_solo(cc_power sc \<mapsto> 100 :: rat)
               else retval_solo(cc_power sc \<mapsto> 0)),
              sum_of_squares + cc_count sc * cc_count sc,
              solo_found \<or> cc_count sc \<ge> WINNING_SCS))
          scs acc
   = (fold (\<lambda>sc m. m(cc_power sc \<mapsto> of_int (cc_count sc * cc_count sc) * 100)) scs (fst acc),
      fold (\<lambda>sc m. m(cc_power sc \<mapsto> (if cc_count sc \<ge> WINNING_SCS then 100 else 0))) scs (fst (snd acc)),
      fst (snd (snd acc)) + sum_list (map (\<lambda>sc. cc_count sc * cc_count sc) scs),
      snd (snd (snd acc)) \<or> list_ex (\<lambda>sc. cc_count sc \<ge> WINNING_SCS) scs)"
proof (induction scs arbitrary: acc)
  case Nil
  show ?case by simp
next
  case (Cons c scs)
  show ?case
    by (simp only: fold_simps Cons.IH)
       (simp only: split_beta fst_conv snd_conv if_upd list.map
          sum_list.Cons list_ex_Cons_iff add.assoc disj_assoc)
qed

lemma sum_of_squares_pass_closed:
  "sum_of_squares_pass scs
   = (dict_from cc_power (\<lambda>sc. of_int (cc_count sc * cc_count sc) * 100) scs,
      dict_from cc_power (\<lambda>sc. if cc_count sc \<ge> WINNING_SCS then 100 else 0) scs,
      sum_list (map (\<lambda>sc. cc_count sc * cc_count sc) scs),
      list_ex (\<lambda>sc. cc_count sc \<ge> WINNING_SCS) scs)"
  unfolding sum_of_squares_pass_def dict_from_def
  by (simp only: sum_of_squares_pass_from fst_conv snd_conv add_0 simp_thms)

lemma normalise_closed:
  "distinct (map cc_power scs) \<Longrightarrow> \<forall>c \<in> set scs. retval (cc_power c) \<noteq> None \<Longrightarrow> ss \<noteq> 0 \<Longrightarrow>
   normalise scs ss retval =
     Inr (\<lambda>p. if p \<in> cc_power ` set scs then map_option (\<lambda>v. v / of_int ss) (retval p) else retval p)"
proof (induction scs arbitrary: retval)
  case Nil
  then show ?case by simp
next
  case (Cons a scs)
  from Cons.prems(2) obtain v where v: "retval (cc_power a) = Some v" by auto
  let ?rv = "retval(cc_power a \<mapsto> v / of_int ss)"
  have nin: "cc_power a \<notin> cc_power ` set scs" using Cons.prems(1) by simp
  have d: "distinct (map cc_power scs)" using Cons.prems(1) by simp
  have "\<forall>c \<in> set scs. ?rv (cc_power c) \<noteq> None" using Cons.prems(2) by simp
  then have ih: "normalise scs ss ?rv =
     Inr (\<lambda>p. if p \<in> cc_power ` set scs then map_option (\<lambda>v. v / of_int ss) (?rv p) else ?rv p)"
    by (rule Cons.IH [OF d _ Cons.prems(3)])
  have "normalise (a # scs) ss retval = normalise scs ss ?rv"
    using v Cons.prems(3) by simp
  also note ih
  also have "(\<lambda>p. if p \<in> cc_power ` set scs then map_option (\<lambda>v. v / of_int ss) (?rv p) else ?rv p)
     = (\<lambda>p. if p \<in> cc_power ` set (a # scs) then map_option (\<lambda>v. v / of_int ss) (retval p) else retval p)"
    using v nin by (auto simp: fun_eq_iff)
  finally show ?case .
qed

lemma sum_list_scaled:
  "sum_list (map (\<lambda>c. 100 * f c / d) xs) = 100 * sum_list (map f xs) / (d :: rat)"
  by (induction xs) (simp_all add: add_divide_distrib distrib_left)

text \<open>
  Claim C6 (sum-of-squares scoring). Let \<open>scs\<close> be the final-year records of a
  game history, one per power (the table's \<open>unique_together\<close>). If no count reaches
  the 18 centres of a solo and the sum of the squared counts is positive, every power scores
  \<open>100 * count\<^sup>2 / \<Sum>count\<^sup>2\<close> and the scores add up to exactly 100 (in
  exact arithmetic; the floating-point tolerance is not modelled). If some count reaches
  18, every power that did scores 100 and every other power scores 0.
\<close>

theorem sum_of_squares_scoring:
  assumes "gss_final_year_scs ccs = Inr scs" and "distinct (map cc_power scs)"
  shows "((\<forall>c \<in> set scs. cc_count c < WINNING_SCS) \<and> 0 < sum_list (map (\<lambda>c. cc_count c * cc_count c) scs)
          \<longrightarrow> (\<exists>m. GScoringSumOfSquares_scores ccs = Inr m
                 \<and> dom m = cc_power ` set scs
                 \<and> (\<forall>c \<in> set scs. m (cc_power c) =
                       Some (100 * of_int (cc_count c * cc_count c)
                             / of_int (sum_list (map (\<lambda>c. cc_count c * cc_count c) scs))))
                 \<and> sum_list (map (\<lambda>c. the (m (cc_power c))) scs) = 100))
       \<and> ((\<exists>c \<in> set scs. cc_count c \<ge> WINNING_SCS)
          \<longrightarrow> (\<exists>m. GScoringSumOfSquares_scores ccs = Inr m
                 \<and> dom m = cc_power ` set scs
                 \<and> (\<forall>c \<in> set scs. m (cc_power c) = Some (if cc_count c \<ge> WINNING_SCS then 100 else 0))))"
proof (intro conjI impI)
  let ?ss = "sum_list (map (\<lambda>c. cc_count c * cc_count c) scs)"
  let ?rv = "dict_from cc_power (\<lambda>sc. rat_of_int (cc_count sc * cc_count sc) * 100) scs"
  assume a: "(\<forall>c \<in> set scs. cc_count c < WINNING_SCS) \<and> 0 < ?ss"
  then have nosolo: "\<not> list_ex (\<lambda>sc. cc_count sc \<ge> WINNING_SCS) scs"
    by (auto simp: list_ex_iff)
  have vals0: "\<forall>c \<in> set scs. ?rv (cc_power c) = Some (of_int (cc_count c * cc_count c) * 100)"
    using dict_from_lookup [OF assms(2), of _ "\<lambda>sc. rat_of_int (cc_count sc * cc_count sc) * 100"]
    by blast
  then have present: "\<forall>c \<in> set scs. ?rv (cc_power c) \<noteq> None"
    by simp
  let ?m = "\<lambda>p. if p \<in> cc_power ` set scs then map_option (\<lambda>v. v / of_int ?ss) (?rv p) else ?rv p"
  have res: "GScoringSumOfSquares_scores ccs = Inr ?m"
    using a nosolo normalise_closed [OF assms(2) present, of ?ss]
    by (simp add: GScoringSumOfSquares_scores_def assms(1) sum_of_squares_pass_closed)
  have vals: "\<forall>c \<in> set scs. ?m (cc_power c) = Some (100 * of_int (cc_count c * cc_count c) / of_int ?ss)"
    using vals0 by simp
  have dm: "dom ?m = cc_power ` set scs"
    using dict_from_dom [of cc_power "\<lambda>sc. rat_of_int (cc_count sc * cc_count sc) * 100" scs]
    by (auto simp: dom_def split: if_splits)
  have "map (\<lambda>c. the (?m (cc_power c))) scs
      = map (\<lambda>c. 100 * of_int (cc_count c * cc_count c) / of_int ?ss) scs"
  proof (rule map_cong [OF refl])
    fix c assume "c \<in> set scs"
    then have "?m (cc_power c) = Some (100 * of_int (cc_count c * cc_count c) / of_int ?ss)"
      using vals by blast
    then show "the (?m (cc_power c)) = 100 * of_int (cc_count c * cc_count c) / of_int ?ss"
      by (simp only: option.sel)
  qed
  then have "sum_list (map (\<lambda>c. the (?m (cc_power c))) scs)
      = sum_list (map (\<lambda>c. 100 * of_int (cc_count c * cc_count c) / rat_of_int ?ss) scs)"
    by (rule arg_cong [where f = sum_list])
  also have "\<dots> = 100 * (sum_list (map (\<lambda>c. of_int (cc_count c * cc_count c)) scs)) / of_int ?ss"
    by (rule sum_list_scaled)
  also have "sum_list (map (\<lambda>c. rat_of_int (cc_count c * cc_count c)) scs) = of_int ?ss"
    by (induction scs) simp_all
  also have "100 * rat_of_int ?ss / of_int ?ss = 100" using a by simp
  finally have total: "sum_list (map (\<lambda>c. the (?m (cc_power c))) scs) = 100" .
  show "\<exists>m. GScoringSumOfSquares_scores ccs = Inr m
                 \<and> dom m = cc_power ` set scs
                 \<and> (\<forall>c \<in> set scs. m (cc_power c) =
                       Some (100 * of_int (cc_count c * cc_count c) / of_int ?ss))
                 \<and> sum_list (map (\<lambda>c. the (m (cc_power c))) scs) = 100"
    using res dm vals total by blast
next
  let ?rs = "dict_from cc_power (\<lambda>sc. if cc_count sc \<ge> WINNING_SCS then 100 else 0 :: rat) scs"
  assume "\<exists>c \<in> set scs. cc_count c \<ge> WINNING_SCS"
  then have solo: "list_ex (\<lambda>sc. cc_count sc \<ge> WINNING_SCS) scs" by (auto simp: list_ex_iff)
  have res: "GScoringSumOfSquares_scores ccs = Inr ?rs"
    using solo by (simp add: GScoringSumOfSquares_scores_def assms(1) sum_of_squares_pass_closed)
  have vals: "\<forall>c \<in> set scs. ?rs (cc_power c) = Some (if cc_count c \<ge> WINNING_SCS then 100 else 0)"
    using dict_from_lookup [OF assms(2), of _ "\<lambda>sc. if cc_count sc \<ge> WINNING_SCS then 100 else 0 :: rat"]
    by blast
  have dm: "dom ?rs = cc_power ` set scs"
    by (rule dict_from_dom)
  show "\<exists>m. GScoringSumOfSquares_scores ccs = Inr m
                 \<and> dom m = cc_power ` set scs
                 \<and> (\<forall>c \<in> set scs. m (cc_power c) = Some (if cc_count c \<ge> WINNING_SCS then 100 else 0))"
    using res dm vals by blast
qed

theorem sum_of_squares_scoring_witness:
  "gss_final_year_scs tie_ledger = Inr (year_counts 1 1904 [10, 10, 6, 0, 0, 0, 0])
   \<and> distinct (map cc_power (year_counts 1 1904 [10, 10, 6, 0, 0, 0, 0]))
   \<and> list_all (\<lambda>c. cc_count c < WINNING_SCS) (year_counts 1 1904 [10, 10, 6, 0, 0, 0, 0])
   \<and> sum_list (map (\<lambda>c. cc_count c * cc_count c) (year_counts 1 1904 [10, 10, 6, 0, 0, 0, 0])) = 236
   \<and> (\<exists>m. GScoringSumOfSquares_scores tie_ledger = Inr m
          \<and> map m [1, 2, 3, 4, 5, 6, 7]
              = [Some (2500 / 59), Some (2500 / 59), Some (900 / 59), Some 0, Some 0, Some 0, Some 0]
          \<and> sum_list (map (\<lambda>c. the (m (cc_power c))) (year_counts 1 1904 [10, 10, 6, 0, 0, 0, 0])) = 100)
   \<and> gss_final_year_scs solo_ledger = Inr (year_counts 1 1905 [18, 6, 4, 4, 2, 0, 0])
   \<and> list_ex (\<lambda>c. cc_count c \<ge> WINNING_SCS) (year_counts 1 1905 [18, 6, 4, 4, 2, 0, 0])
   \<and> (\<exists>m. GScoringSumOfSquares_scores solo_ledger = Inr m
          \<and> map m [1, 2, 3, 4, 5, 6, 7] = [Some 100, Some 0, Some 0, Some 0, Some 0, Some 0, Some 0])"
proof -
  let ?a = "year_counts 1 1904 [10, 10, 6, 0, 0, 0, 0]"
  let ?b = "year_counts 1 1905 [18, 6, 4, 4, 2, 0, 0]"
  have a1: "gss_final_year_scs tie_ledger = Inr ?a" by code_simp
  have a2: "distinct (map cc_power ?a)" by code_simp
  have a3: "list_all (\<lambda>c. cc_count c < WINNING_SCS) ?a" by code_simp
  have a4: "sum_list (map (\<lambda>c. cc_count c * cc_count c) ?a) = 236" by code_simp
  from sum_of_squares_scoring [OF a1 a2] a3 a4
  obtain m where m: "GScoringSumOfSquares_scores tie_ledger = Inr m"
      "\<forall>c \<in> set ?a. m (cc_power c) = Some (100 * of_int (cc_count c * cc_count c) / 236)"
      "sum_list (map (\<lambda>c. the (m (cc_power c))) ?a) = 100"
    by (auto simp: list_all_iff)
  have ma: "map m [1, 2, 3, 4, 5, 6, 7]
      = [Some (2500 / 59), Some (2500 / 59), Some (900 / 59), Some 0, Some 0, Some 0, Some 0]"
    using m(2) by (simp add: year_counts_def upt_rec eval_nat_numeral)
  have b1: "gss_final_year_scs solo_ledger = Inr ?b" by code_simp
  have b2: "distinct (map cc_power ?b)" by code_simp
  have b3: "list_ex (\<lambda>c. cc_count c \<ge> WINNING_SCS) ?b" by code_simp
  from sum_of_squares_scoring [OF b1 b2] b3
  obtain m' where m': "GScoringSumOfSquares_scores solo_ledger = Inr m'"
      "\<forall>c \<in> set ?b. m' (cc_power c) = Some (if cc_count c \<ge> WINNING_SCS then 100 else 0)"
    by (auto simp: list_ex_iff)
  have mb: "map m' [1, 2, 3, 4, 5, 6, 7] = [Some 100, Some 0, Some 0, Some 0, Some 0, Some 0, Some 0]"
    using m'(2) by (simp add: year_counts_def upt_rec WINNING_SCS_def TOTAL_SCS_def eval_nat_numeral)
  have E1: "\<exists>m. GScoringSumOfSquares_scores tie_ledger = Inr m
          \<and> map m [1, 2, 3, 4, 5, 6, 7]
              = [Some (2500 / 59), Some (2500 / 59), Some (900 / 59), Some 0, Some 0, Some 0, Some 0]
          \<and> sum_list (map (\<lambda>c. the (m (cc_power c))) ?a) = 100"
    using m(1,3) ma by (intro exI [of _ m] conjI)
  have E2: "\<exists>m. GScoringSumOfSquares_scores solo_ledger = Inr m
          \<and> map m [1, 2, 3, 4, 5, 6, 7] = [Some 100, Some 0, Some 0, Some 0, Some 0, Some 0, Some 0]"
    using m'(1) mb by (intro exI [of _ m'] conjI)
  show ?thesis by (intro conjI) (rule a1 a2 a3 a4 E1 b1 b3 E2)+
qed

section \<open>GScoringDrawSize and Game.soloer\<close>

text \<open>
  Claim C1 (draw-size split) at a failing input. In a round that is not DIAS, game 1 ends
  its final year with Austria 10, England 10, France 14 and the other powers on 0; nobody
  soloed, and a draw naming Austria and England passed. The two named powers score
  \<open>100 / 2\<close>, but France, a survivor left out of the draw, falls through to the last
  branch and scores \<open>100 /\<close> the number of survivors, which is \<open>100 / 3\<close>
  and not 0.
\<close>

theorem draw_size_excluded_survivor:
  "map_sum id (\<lambda>(d, s'). map d [1, 2, 3, 4, 5, 6, 7])
     (game_scores
        (example_db ''Draw size'' draw_ledger [draw_of [Some 1, Some 2, None, None, None, None, None]])
        game_1 False)
   = Inr [Some 50, Some 50, Some (100 / 3), Some 0, Some 0, Some 0, Some 0]"
  by code_simp

text \<open>
  Claim C8 (solo detection over the whole history) at a failing input. Austria holds 18
  centres, so the highest centre count of the game is at least 18, but two GamePlayers
  hold Austria: \<open>gameplayer_set.filter(power=...).get()\<close> raises
  MultipleObjectsReturned, no GamePlayer is returned, and the draw-size scorer, which calls
  \<open>soloer\<close>, fails with it.
\<close>

theorem soloer_replacement:
  "soloer replacement_db 1 = Inl MultipleObjectsReturned
   \<and> map_sum id (\<lambda>r. ()) (game_scores replacement_db game_1 False) = Inl MultipleObjectsReturned"
  by code_simp

text \<open>
  The other half of claim C8 holds: the test looks at every recorded year. Austria held
  18 centres in 1905 and 17 in the final year 1906; \<open>soloer\<close> returns Austria's
  GamePlayer, and the draw-size scorer, taking the game as soloed, gives every power 0.
\<close>

lemma soloer_history:
  "soloer (example_db ''Draw size'' (solo_ledger @ year_counts 1 1906 [17, 7, 4, 4, 2, 0, 0]) []) 1
    = Inr (Some \<lparr>gpl_player = 11, gpl_game = 1, gpl_power = 1, gpl_score = 0\<rparr>)
   \<and> map_sum id (\<lambda>(d, s'). map d [1, 2, 3, 4, 5, 6, 7])
     (game_scores
        (example_db ''Draw size'' (solo_ledger @ year_counts 1 1906 [17, 7, 4, 4, 2, 0, 0]) [])
        game_1 False)
   = Inr [Some 0, Some 0, Some 0, Some 0, Some 0, Some 0, Some 0]"
  by code_simp

section \<open>Game.save\<close>

subsection \<open>What scoring leaves unchanged\<close>

lemma game_scores_state:
  "game_scores s g f = Inr (d, s') \<Longrightarrow> \<exists>gs. s' = s\<lparr>G_SCORING_SYSTEMS := gs\<rparr>"
  by (auto simp: game_scores_def split: if_splits sum.splits option.splits intro: exI [of _ "G_SCORING_SYSTEMS s"])

lemma score_games_state:
  "score_games s G acc = Inr (acc', s') \<Longrightarrow> \<exists>gs. s' = s\<lparr>G_SCORING_SYSTEMS := gs\<rparr>"
proof (induction G arbitrary: s acc)
  case Nil
  then show ?case by (auto intro: exI [of _ "G_SCORING_SYSTEMS s"])
next
  case (Cons g G)
  from Cons.prems obtain d s1 where g: "game_scores s g False = Inr (d, s1)"
      and rest: "score_games s1 G (acc(g_pk g \<mapsto> d)) = Inr (acc', s')"
    by (auto split: sum.splits)
  from game_scores_state [OF g] obtain gs1 where s1: "s1 = s\<lparr>G_SCORING_SYSTEMS := gs1\<rparr>" by blast
  from Cons.IH [OF rest] obtain gs where "s' = s1\<lparr>G_SCORING_SYSTEMS := gs\<rparr>" by blast
  with s1 show ?case by auto
qed

lemma round_scores_state:
  "round_scores s r f = Inr (d, s') \<Longrightarrow> \<exists>gs. s' = s\<lparr>G_SCORING_SYSTEMS := gs\<rparr>"
  by (auto simp: round_scores_def RScoringBest_scores_def
      split: if_splits sum.splits option.splits round_scoring_system.splits
      dest!: score_games_state intro: exI [of _ "G_SCORING_SYSTEMS s"])

lemma score_rounds_state:
  "score_rounds s R acc = Inr (acc', s') \<Longrightarrow> \<exists>gs. s' = s\<lparr>G_SCORING_SYSTEMS := gs\<rparr>"
proof (induction R arbitrary: s acc)
  case Nil
  then show ?case by (auto intro: exI [of _ "G_SCORING_SYSTEMS s"])
next
  case (Cons r R)
  from Cons.prems obtain d s1 where g: "round_scores s r False = Inr (d, s1)"
      and rest: "score_rounds s1 R (acc(r_pk r \<mapsto> d)) = Inr (acc', s')"
    by (auto split: sum.splits)
  from round_scores_state [OF g] obtain gs1 where s1: "s1 = s\<lparr>G_SCORING_SYSTEMS := gs1\<rparr>" by blast
  from Cons.IH [OF rest] obtain gs where "s' = s1\<lparr>G_SCORING_SYSTEMS := gs\<rparr>" by blast
  with s1 show ?case by auto
qed

lemma tournament_scores_state:
  "tournament_scores s t f = Inr (d, s') \<Longrightarrow> \<exists>gs. s' = s\<lparr>G_SCORING_SYSTEMS := gs\<rparr>"
  by (auto simp: tournament_scores_def TScoringSum_scores_def
      split: if_splits sum.splits option.splits tournament_scoring_system.splits
      dest!: score_rounds_state intro: exI [of _ "G_SCORING_SYSTEMS s"])

lemma finalize_centrecounts:
  assumes "finalize s g = Inr s'"
  shows "centrecounts s' = centrecounts s"
proof -
  from assms obtain s1 r s2 t where b1: "save_game_block s g = Inr s1"
      and b2: "save_round_block s1 r = Inr s2" and b3: "save_tournament_block s2 t = Inr s'"
    by (auto simp: finalize_def split: sum.splits)
  have c1: "centrecounts s1 = centrecounts s"
    using b1 by (auto simp: save_game_block_def split: sum.splits dest!: game_scores_state)
  have c2: "centrecounts s2 = centrecounts s1"
    using b2 by (auto simp: save_round_block_def split: sum.splits if_splits dest!: round_scores_state)
  have c3: "centrecounts s' = centrecounts s2"
    using b3 by (auto simp: save_tournament_block_def split: sum.splits if_splits dest!: tournament_scores_state)
  show ?thesis using c1 c2 c3 by simp
qed

subsection \<open>The 1900 centre counts\<close>

lemma get_or_create_result:
  "get_or_create k row rows = Inr rows' \<Longrightarrow>
     row \<in> set rows' \<and> (rows' = rows \<or> (row \<notin> set rows \<and> rows' = rows @ [row]))"
proof -
  assume a: "get_or_create k row rows = Inr rows'"
  show ?thesis
  proof (cases "filter (\<lambda>x. x = row) rows")
    case Nil
    then have "row \<notin> set rows" by (auto simp: filter_empty_conv)
    with a Nil show ?thesis by (auto simp: get_or_create_def split: if_splits)
  next
    case (Cons x xs)
    then have "x \<in> set (filter (\<lambda>x. x = row) rows)" by simp
    then have "row \<in> set rows" by auto
    with a Cons show ?thesis by (auto simp: get_or_create_def split: list.splits)
  qed
qed

lemma start_counts_result:
  "start_counts gid rid rnds ps ccs = Inr ccs' \<Longrightarrow>
     (\<exists>new. ccs' = ccs @ new \<and> set new \<subseteq> start_row gid ` set ps)
     \<and> (\<forall>pw \<in> set ps. start_row gid pw \<in> set ccs')"
proof (induction ps arbitrary: ccs)
  case Nil
  then show ?case by simp
next
  case (Cons pw ps)
  from Cons.prems obtain ccs1 where
      goc: "get_or_create cc_same_key (start_row gid pw) ccs = Inr ccs1"
      and rest: "start_counts gid rid rnds ps ccs1 = Inr ccs'"
    by (auto simp: Let_def split: sum.splits if_splits)
  from get_or_create_result [OF goc]
  have in1: "start_row gid pw \<in> set ccs1"
    and shape: "ccs1 = ccs \<or> ccs1 = ccs @ [start_row gid pw]" by auto
  from Cons.IH [OF rest] obtain new where new: "ccs' = ccs1 @ new" "set new \<subseteq> start_row gid ` set ps"
    and all: "\<forall>pw \<in> set ps. start_row gid pw \<in> set ccs'" by blast
  from shape new have "\<exists>new'. ccs' = ccs @ new' \<and> set new' \<subseteq> start_row gid ` set (pw # ps)"
    by auto
  moreover have "start_row gid pw \<in> set ccs'" using in1 new by simp
  ultimately show ?case using all by simp
qed

text \<open>
  Claim C10 (1900 centre counts). Whenever \<open>Game.save\<close> returns, the ledger holds,
  for every GreatPower of the database, the 1900 record of the saved game with that power's
  starting centres; the records stored before are kept and what is added are 1900 records
  of this game. So with a non-empty GreatPower table (the seven powers)
  \<open>years_played()\<close> is not empty and \<open>final_year()\<close> returns a year.
\<close>

theorem save_creates_start_counts:
  assumes "save s g = Inr s'"
  shows "(\<forall>pw \<in> set (greatpowers s).
            \<lparr>cc_power = gp_pk pw, cc_game = g_pk g, cc_year = 1900, cc_count = starting_centres pw\<rparr>
              \<in> set (centrecounts s'))
       \<and> (\<exists>new. centrecounts s' = centrecounts s @ new
                \<and> (\<forall>c \<in> set new. cc_game c = g_pk g \<and> cc_year c = 1900))
       \<and> (greatpowers s \<noteq> [] \<longrightarrow>
             years_played s' (g_pk g) \<noteq> [] \<and> (\<exists>y. game_final_year s' (g_pk g) = Inr y))"
proof -
  let ?s0 = "s\<lparr>games := save_row g (games s)\<rparr>"
  from assms obtain ccs imgs where
      sc: "start_counts (g_pk g) (the_round g) (rounds s) (greatpowers s) (centrecounts s) = Inr ccs"
      and fin: "(if is_finished g then finalize (?s0\<lparr>centrecounts := ccs, gameimages := imgs\<rparr>) g
                 else Inr (?s0\<lparr>centrecounts := ccs, gameimages := imgs\<rparr>)) = Inr s'"
    by (auto simp: save_def Let_def split: sum.splits)
  have cc: "centrecounts s' = ccs"
    using fin finalize_centrecounts [of "?s0\<lparr>centrecounts := ccs, gameimages := imgs\<rparr>" g s']
    by (auto split: if_splits)
  from start_counts_result [OF sc] obtain new where
      new: "ccs = centrecounts s @ new" "set new \<subseteq> start_row (g_pk g) ` set (greatpowers s)"
      and all: "\<forall>pw \<in> set (greatpowers s). start_row (g_pk g) pw \<in> set ccs" by blast
  have p1: "\<forall>pw \<in> set (greatpowers s).
            \<lparr>cc_power = gp_pk pw, cc_game = g_pk g, cc_year = 1900, cc_count = starting_centres pw\<rparr>
              \<in> set (centrecounts s')"
    using all cc by (simp add: start_row_def FIRST_YEAR_def)
  have p2: "\<exists>new. centrecounts s' = centrecounts s @ new
                \<and> (\<forall>c \<in> set new. cc_game c = g_pk g \<and> cc_year c = 1900)"
    using new cc by (auto simp: start_row_def FIRST_YEAR_def)
  have p3: "greatpowers s \<noteq> [] \<longrightarrow>
             years_played s' (g_pk g) \<noteq> [] \<and> (\<exists>y. game_final_year s' (g_pk g) = Inr y)"
  proof
    assume "greatpowers s \<noteq> []"
    then obtain pw where "pw \<in> set (greatpowers s)" by (cases "greatpowers s") auto
    with all cc have "start_row (g_pk g) pw \<in> set (centrecounts s')" by simp
    then have "start_row (g_pk g) pw \<in> set (centrecount_set s' (g_pk g))"
      by (simp add: centrecount_set_def start_row_def)
    then have "cc_year (start_row (g_pk g) pw) \<in> set (years_played s' (g_pk g))"
      by (simp add: years_played_def)
    then have ne: "years_played s' (g_pk g) \<noteq> []" by auto
    then show "years_played s' (g_pk g) \<noteq> [] \<and> (\<exists>y. game_final_year s' (g_pk g) = Inr y)"
      by (auto simp: game_final_year_def split: list.splits)
  qed
  show ?thesis using p1 p2 p3 by blast
qed

theorem save_creates_start_counts_witness:
  "save (example_db ''Draw size'' [] []) game_1
     = Inr ((example_db ''Draw size'' [] [])
              \<lparr>centrecounts := year_counts 1 1900 [3, 3, 3, 3, 3, 4, 3],
               gameimages := [\<lparr>gi_game = 1, gi_year = 1901, gi_season = ''S'', gi_phase = ''M'',
                               gi_image = ''s1901m.gif''\<rparr>]\<rparr>)
   \<and> greatpowers (example_db ''Draw size'' [] []) = seven_powers
   \<and> years_played ((example_db ''Draw size'' [] [])
              \<lparr>centrecounts := year_counts 1 1900 [3, 3, 3, 3, 3, 4, 3],
               gameimages := [\<lparr>gi_game = 1, gi_year = 1901, gi_season = ''S'', gi_phase = ''M'',
                               gi_image = ''s1901m.gif''\<rparr>]\<rparr>) 1 \<noteq> []
   \<and> (\<exists>y. game_final_year ((example_db ''Draw size'' [] [])
              \<lparr>centrecounts := year_counts 1 1900 [3, 3, 3, 3, 3, 4, 3],
               gameimages := [\<lparr>gi_game = 1, gi_year = 1901, gi_season = ''S'', gi_phase = ''M'',
                               gi_image = ''s1901m.gif''\<rparr>]\<rparr>) 1 = Inr y)"
proof -
  let ?s = "example_db ''Draw size'' [] []"
  let ?s' = "?s\<lparr>centrecounts := year_counts 1 1900 [3, 3, 3, 3, 3, 4, 3],
               gameimages := [\<lparr>gi_game = 1, gi_year = 1901, gi_season = ''S'', gi_phase = ''M'',
                               gi_image = ''s1901m.gif''\<rparr>]\<rparr>"
  have sv: "save ?s game_1 = Inr ?s'" by code_simp
  have gp: "greatpowers ?s = seven_powers" by (simp add: example_db_def)
  have ne: "greatpowers ?s \<noteq> []" by (simp add: gp seven_powers_def)
  from save_creates_start_counts [OF sv] ne
  have "years_played ?s' (g_pk game_1) \<noteq> []" "\<exists>y. game_final_year ?s' (g_pk game_1) = Inr y"
    by blast+
  then show ?thesis using sv gp by (simp add: game_1_def)
qed

subsection \<open>Saving again: rows\<close>








subsection \<open>Saving again: the stored scores\<close>





subsection \<open>Scoring a game again\<close>










subsection \<open>Scoring a finished round or tournament\<close>






lemma tournament_is_finished_same:
  "games (s' :: state) = games (s :: state) \<Longrightarrow> rounds s' = rounds s \<Longrightarrow>
   tournament_is_finished s' tid = tournament_is_finished s tid"
  by (simp add: tournament_is_finished_def round_is_finished_def)





subsection \<open>The three blocks, run again\<close>




subsection \<open>Game.save, run again\<close>









end
